theory Spec2Isabelle
  imports Complex_Main "HOL-Library.List_Lexorder" "HOL-Library.Multiset"
begin

section \<open>Python strings\<close>

text \<open>
  A Python \<open>str\<close> is a sequence of Unicode code points: \<open>len\<close> counts code points and
  comparison is lexicographic on them. A code point is a natural number; \<open>lit\<close> embeds an
  ASCII literal.
\<close>

type_synonym pystr = "nat list"

definition lit :: "string \<Rightarrow> pystr" where
  "lit s = map of_char s"

text \<open>
  The code points of general category Nd (Unicode 14.0, the database of CPython 3.11), as
  inclusive ranges. Every range starts at a digit of value 0 and its length is a multiple of
  ten. This is the class \<open>\d\<close> of a \<open>str\<close> pattern of module \<open>re\<close> compiled without
  \<open>re.ASCII\<close>, and the digits that \<open>float\<close> accepts.
\<close>

definition decimal_ranges :: "(nat \<times> nat) list" where
  "decimal_ranges =
   [(48, 57), (1632, 1641), (1776, 1785), (1984, 1993), (2406, 2415), (2534, 2543),
    (2662, 2671), (2790, 2799), (2918, 2927), (3046, 3055), (3174, 3183), (3302, 3311),
    (3430, 3439), (3558, 3567), (3664, 3673), (3792, 3801), (3872, 3881), (4160, 4169),
    (4240, 4249), (6112, 6121), (6160, 6169), (6470, 6479), (6608, 6617), (6784, 6793),
    (6800, 6809), (6992, 7001), (7088, 7097), (7232, 7241), (7248, 7257), (42528, 42537),
    (43216, 43225), (43264, 43273), (43472, 43481), (43504, 43513), (43600, 43609),
    (44016, 44025), (65296, 65305), (66720, 66729), (68912, 68921), (69734, 69743),
    (69872, 69881), (69942, 69951), (70096, 70105), (70384, 70393), (70736, 70745),
    (70864, 70873), (71248, 71257), (71360, 71369), (71472, 71481), (71904, 71913),
    (72016, 72025), (72784, 72793), (73040, 73049), (73120, 73129), (92768, 92777),
    (92864, 92873), (93008, 93017), (120782, 120831), (123200, 123209), (123632, 123641),
    (125264, 125273), (130032, 130041)]"

definition is_decimal :: "nat \<Rightarrow> bool" where
  "is_decimal c = list_ex (\<lambda>(a, b). a \<le> c \<and> c \<le> b) decimal_ranges"

definition is_ascii_digit :: "nat \<Rightarrow> bool" where
  "is_ascii_digit c = (48 \<le> c \<and> c \<le> 57)"

fun decimal_value_in :: "(nat \<times> nat) list \<Rightarrow> nat \<Rightarrow> nat" where
  "decimal_value_in [] c = 0"
| "decimal_value_in ((a, b) # rs) c =
     (if a \<le> c \<and> c \<le> b then (c - a) mod 10 else decimal_value_in rs c)"

definition decimal_value :: "nat \<Rightarrow> nat" where
  "decimal_value c = decimal_value_in decimal_ranges c"

text \<open>The code points for which \<open>str.isspace\<close> holds; \<open>str.strip()\<close> removes them at both ends.\<close>

definition py_isspace :: "nat \<Rightarrow> bool" where
  "py_isspace c = (c \<in> set [9, 10, 11, 12, 13, 28, 29, 30, 31, 32, 133, 160, 5760, 8192, 8193,
     8194, 8195, 8196, 8197, 8198, 8199, 8200, 8201, 8202, 8232, 8233, 8239, 8287, 12288])"


text \<open>\<open>sep.join(xs)\<close> on a list of strings.\<close>

fun join_strs :: "pystr \<Rightarrow> pystr list \<Rightarrow> pystr" where
  "join_strs sep [] = []"
| "join_strs sep [x] = x"
| "join_strs sep (x # y # xs) = x @ sep @ join_strs sep (y # xs)"

section \<open>Exceptions\<close>

text \<open>
  An exception is its class and its message. The messages of the exceptions that the
  package raises itself are the source's; those of exceptions raised by a builtin are left
  empty, their wording belongs to the interpreter.
\<close>

datatype exn = TypeError | ValueError | OverflowError

type_synonym error = "exn \<times> string"

definition bind_result :: "error + 'a \<Rightarrow> ('a \<Rightarrow> error + 'b) \<Rightarrow> error + 'b" where
  "bind_result r f = (case r of Inl e \<Rightarrow> Inl e | Inr x \<Rightarrow> f x)"

definition raises :: "error + 'a \<Rightarrow> exn \<Rightarrow> bool" where
  "raises r x = (case r of Inl e \<Rightarrow> fst e = x | Inr v \<Rightarrow> False)"

section \<open>Floats\<close>

text \<open>
  A float is a finite number, an infinity or a NaN. Finite values are exact reals: rounding
  to binary64 is not modelled, overflow is (a conversion whose value would round to
  \<open>2 ^ 1024\<close> gives an infinity from a string and OverflowError from an int).
\<close>

datatype pyfloat = Fin real | PInf | NInf | NaN

definition float_overflow :: real where
  "float_overflow = 2 ^ 1024 - 2 ^ 970"

fun fneg :: "pyfloat \<Rightarrow> pyfloat" where
  "fneg (Fin a) = Fin (- a)"
| "fneg PInf = NInf"
| "fneg NInf = PInf"
| "fneg NaN = NaN"

fun fadd :: "pyfloat \<Rightarrow> pyfloat \<Rightarrow> pyfloat" where
  "fadd NaN y = NaN"
| "fadd x NaN = NaN"
| "fadd (Fin a) (Fin b) = Fin (a + b)"
| "fadd PInf NInf = NaN"
| "fadd NInf PInf = NaN"
| "fadd PInf y = PInf"
| "fadd NInf y = NInf"
| "fadd (Fin a) y = y"

definition fsub :: "pyfloat \<Rightarrow> pyfloat \<Rightarrow> pyfloat" where
  "fsub x y = fadd x (fneg y)"

fun fabs :: "pyfloat \<Rightarrow> pyfloat" where
  "fabs (Fin a) = Fin \<bar>a\<bar>"
| "fabs PInf = PInf"
| "fabs NInf = PInf"
| "fabs NaN = NaN"

fun fle :: "pyfloat \<Rightarrow> pyfloat \<Rightarrow> bool" where
  "fle NaN y = False"
| "fle x NaN = False"
| "fle (Fin a) (Fin b) = (a \<le> b)"
| "fle NInf y = True"
| "fle x PInf = True"
| "fle PInf y = False"
| "fle (Fin a) NInf = False"

fun feq :: "pyfloat \<Rightarrow> pyfloat \<Rightarrow> bool" where
  "feq (Fin a) (Fin b) = (a = b)"
| "feq PInf PInf = True"
| "feq NInf NInf = True"
| "feq x y = False"

subsection \<open>\<open>float(s)\<close> for a string\<close>

text \<open>
  CPython first maps the string to ASCII: code points below 127 stay, other whitespace
  becomes a space, other decimal digits become ASCII digits, anything else becomes \<open>?\<close>.
  Then it drops ASCII whitespace at both ends and reads
  \<open>[sign] (inf | infinity | nan | number [exponent])\<close>, where digits may be separated by
  single underscores.
\<close>

definition to_ascii :: "nat \<Rightarrow> nat" where
  "to_ascii c = (if c < 127 then c else if py_isspace c then 32
                 else if is_decimal c then 48 + decimal_value c else 63)"

definition c_isspace :: "nat \<Rightarrow> bool" where
  "c_isspace c = (c = 32 \<or> (9 \<le> c \<and> c \<le> 13))"

definition c_strip :: "pystr \<Rightarrow> pystr" where
  "c_strip s = rev (dropWhile c_isspace (rev (dropWhile c_isspace s)))"

definition to_lower :: "nat \<Rightarrow> nat" where
  "to_lower c = (if 65 \<le> c \<and> c \<le> 90 then c + 32 else c)"

fun skip_underscore :: "pystr \<Rightarrow> pystr" where
  "skip_underscore (u # d # r) = (if u = 95 \<and> is_ascii_digit d then d # r else u # d # r)"
| "skip_underscore cs = cs"

lemma length_skip_underscore: "length (skip_underscore cs) \<le> length cs"
  by (induction cs rule: skip_underscore.induct) auto

function take_digits :: "pystr \<Rightarrow> nat list \<times> pystr" where
  "take_digits [] = ([], [])"
| "take_digits (c # cs) =
     (if is_ascii_digit c
      then (case take_digits (skip_underscore cs) of (ds, r) \<Rightarrow> ((c - 48) # ds, r))
      else ([], c # cs))"
  by pat_completeness auto
termination
  by (relation "measure length") (auto simp: length_skip_underscore less_Suc_eq_le)

definition digits_value :: "nat list \<Rightarrow> nat" where
  "digits_value ds = foldl (\<lambda>a d. 10 * a + d) 0 ds"

definition pow10 :: "int \<Rightarrow> real" where
  "pow10 e = (if 0 \<le> e then 10 ^ nat e else 1 / 10 ^ nat (- e))"

definition take_sign :: "pystr \<Rightarrow> bool \<times> pystr" where
  "take_sign s = (case s of [] \<Rightarrow> (False, [])
                  | c # cs \<Rightarrow> if c = 45 then (True, cs) else if c = 43 then (False, cs)
                             else (False, c # cs))"

definition parse_exponent :: "pystr \<Rightarrow> int option" where
  "parse_exponent s =
     (case s of [] \<Rightarrow> Some 0
      | c # cs \<Rightarrow>
          if c = 101 \<or> c = 69
          then (case take_sign cs of (neg, r) \<Rightarrow>
                  (case take_digits r of (ds, rest) \<Rightarrow>
                     if ds = [] \<or> rest \<noteq> [] then None
                     else Some (if neg then - int (digits_value ds) else int (digits_value ds))))
          else None)"

definition parse_number :: "pystr \<Rightarrow> real option" where
  "parse_number s =
     (case take_digits s of (ip, r1) \<Rightarrow>
        (case (case r1 of [] \<Rightarrow> (False, [], [])
               | c # cs \<Rightarrow> if c = 46 then (case take_digits cs of (fp, r2) \<Rightarrow> (True, fp, r2))
                          else (False, [], c # cs)) of
           (dot, fp, r2) \<Rightarrow>
             if ip = [] \<and> fp = [] then None
             else (case parse_exponent r2 of None \<Rightarrow> None
                   | Some e \<Rightarrow>
                       Some (real (digits_value (ip @ fp)) * pow10 (e - int (length fp))))))"

definition float_of_str :: "pystr \<Rightarrow> pyfloat option" where
  "float_of_str s =
     (case take_sign (c_strip (map to_ascii s)) of (neg, body) \<Rightarrow>
        (let low = map to_lower body in
         if low = lit ''inf'' \<or> low = lit ''infinity'' then Some (if neg then NInf else PInf)
         else if low = lit ''nan'' then Some NaN
         else (case parse_number body of None \<Rightarrow> None
               | Some v \<Rightarrow>
                   Some (if float_overflow \<le> v then (if neg then NInf else PInf)
                         else Fin (if neg then - v else v)))))"

section \<open>Values\<close>

text \<open>
  The values a field of a record can hold: the JSON scalars as \<open>json.loads\<close> delivers
  them. A float is kept as its \<open>repr\<close>, which determines it (\<open>float(repr(x)) == x\<close>);
  arrays and objects nested inside a record are outside the model.
\<close>

datatype pyval = PNone | PBool bool | PInt int | PFloat pystr | PStr pystr

type_synonym entry = "(pystr \<times> pyval) list"

definition float_value :: "pystr \<Rightarrow> pyfloat" where
  "float_value r = (case float_of_str r of Some x \<Rightarrow> x | None \<Rightarrow> NaN)"

text \<open>\<open>bool(v)\<close>, the truth value that \<open>if v\<close> and \<open>not v\<close> test.\<close>

fun truthy :: "pyval \<Rightarrow> bool" where
  "truthy PNone = False"
| "truthy (PBool b) = b"
| "truthy (PInt n) = (n \<noteq> 0)"
| "truthy (PFloat r) = (float_value r \<noteq> Fin 0)"
| "truthy (PStr s) = (s \<noteq> [])"

fun isinstance_str :: "pyval \<Rightarrow> bool" where
  "isinstance_str (PStr s) = True"
| "isinstance_str v = False"

text \<open>\<open>str(v)\<close>.\<close>

function str_nat :: "nat \<Rightarrow> pystr" where
  "str_nat n = (if n < 10 then [48 + n] else str_nat (n div 10) @ [48 + n mod 10])"
  by pat_completeness auto
termination
  by (relation "measure id") auto

declare str_nat.simps [simp del]

fun py_str :: "pyval \<Rightarrow> pystr" where
  "py_str PNone = lit ''None''"
| "py_str (PBool b) = (if b then lit ''True'' else lit ''False'')"
| "py_str (PInt n) = (if n < 0 then 45 # str_nat (nat (- n)) else str_nat (nat n))"
| "py_str (PFloat r) = r"
| "py_str (PStr s) = s"

text \<open>
  \<open>float(v)\<close>: ValueError for a string that is not a number, TypeError for \<open>None\<close>,
  OverflowError for an int too large for a float.
\<close>

fun py_float :: "pyval \<Rightarrow> error + pyfloat" where
  "py_float PNone = Inl (TypeError, [])"
| "py_float (PBool b) = Inr (Fin (if b then 1 else 0))"
| "py_float (PInt n) =
     (if float_overflow \<le> \<bar>real_of_int n\<bar> then Inl (OverflowError, [])
      else Inr (Fin (real_of_int n)))"
| "py_float (PFloat r) = Inr (float_value r)"
| "py_float (PStr s) =
     (case float_of_str s of None \<Rightarrow> Inl (ValueError, []) | Some x \<Rightarrow> Inr x)"

text \<open>
  \<open>a == b\<close>, by which a set and a dict tell their keys apart: \<open>None\<close> equals itself,
  strings are compared as strings, and \<open>bool\<close>, \<open>int\<close> and \<open>float\<close> by their numeric value
  (\<open>True == 1 == 1.0\<close>). A NaN equals nothing; that a container finds the very same NaN
  object again by identity is not modelled.
\<close>

fun num_value :: "pyval \<Rightarrow> pyfloat option" where
  "num_value (PBool b) = Some (Fin (if b then 1 else 0))"
| "num_value (PInt n) = Some (Fin (real_of_int n))"
| "num_value (PFloat r) = Some (float_value r)"
| "num_value v = None"

fun py_eq :: "pyval \<Rightarrow> pyval \<Rightarrow> bool" where
  "py_eq PNone PNone = True"
| "py_eq (PStr s) (PStr t) = (s = t)"
| "py_eq a b = (case (num_value a, num_value b) of
                  (Some x, Some y) \<Rightarrow> feq x y | _ \<Rightarrow> False)"

text \<open>\<open>entry.get(key, default)\<close> and \<open>entry[key]\<close>.\<close>

definition dict_get :: "entry \<Rightarrow> pystr \<Rightarrow> pyval \<Rightarrow> pyval" where
  "dict_get entry key dflt = (case map_of entry key of None \<Rightarrow> dflt | Some v \<Rightarrow> v)"

section \<open>Validation of the pincode argument\<close>

definition valid_zipcode_length :: nat where
  "valid_zipcode_length = 6"

text \<open>\<open>_digits.search(zipcode)\<close> for \<open>_digits = re.compile(r"[^\d]")\<close>: is there a character
  that is not a decimal digit.\<close>

definition digits_search :: "pystr \<Rightarrow> bool" where
  "digits_search zipcode = list_ex (\<lambda>c. \<not> is_decimal c) zipcode"

definition clean :: "pystr \<Rightarrow> error + pystr" where
  "clean zipcode =
     (if length zipcode \<noteq> valid_zipcode_length
      then Inl (ValueError, ''Invalid format, pincode must be exactly 6 digits.'')
      else if digits_search zipcode
      then Inl (ValueError, ''Invalid characters, pincode may only contain digits.'')
      else Inr zipcode)"

text \<open>The decorator: \<open>clean_zipcode fn\<close> is the decorated function, in its first argument.\<close>

definition clean_zipcode :: "(pystr \<Rightarrow> error + 'a) \<Rightarrow> pyval \<Rightarrow> error + 'a" where
  "clean_zipcode fn zipcode =
     (if \<not> truthy zipcode \<or> \<not> isinstance_str zipcode
      then Inl (TypeError, ''Invalid type, pincode must be a string.'')
      else bind_result (clean (py_str zipcode)) fn)"

text \<open>The gate alone: the decorator around a function that returns its argument.\<close>

definition gate :: "pyval \<Rightarrow> error + pystr" where
  "gate zipcode = clean_zipcode Inr zipcode"

section \<open>The query operations\<close>

text \<open>
  Every operation takes the module's dataset \<open>_zips\<close> (here \<open>gzips\<close>) and the optional
  argument \<open>zips\<close>, \<open>None\<close> by default.
\<close>

definition zips_or_default :: "entry list \<Rightarrow> entry list option \<Rightarrow> entry list" where
  "zips_or_default gzips zips = (case zips of None \<Rightarrow> gzips | Some z \<Rightarrow> z)"

subsection \<open>matching\<close>

fun matching_loop :: "pystr \<Rightarrow> entry list \<Rightarrow> entry list \<Rightarrow> entry list" where
  "matching_loop zipcode [] results = results"
| "matching_loop zipcode (entry # zips) results =
     (case map_of entry (lit ''Pincode'') of
        None \<Rightarrow> matching_loop zipcode zips results
      | Some p \<Rightarrow>
          if py_str p = zipcode then matching_loop zipcode zips (results @ [entry])
          else matching_loop zipcode zips results)"

definition matching_body :: "entry list \<Rightarrow> pystr \<Rightarrow> entry list option \<Rightarrow> error + entry list" where
  "matching_body gzips zipcode zips =
     Inr (matching_loop zipcode (zips_or_default gzips zips) [])"

definition matching :: "entry list \<Rightarrow> pyval \<Rightarrow> entry list option \<Rightarrow> error + entry list" where
  "matching gzips zipcode zips = clean_zipcode (\<lambda>z. matching_body gzips z zips) zipcode"

subsection \<open>isvalid\<close>

definition isvalid_body :: "entry list \<Rightarrow> pystr \<Rightarrow> entry list option \<Rightarrow> error + bool" where
  "isvalid_body gzips zipcode zips =
     bind_result (matching gzips (PStr zipcode) (Some (zips_or_default gzips zips)))
       (\<lambda>r. Inr (r \<noteq> []))"

definition isvalid :: "entry list \<Rightarrow> pyval \<Rightarrow> entry list option \<Rightarrow> error + bool" where
  "isvalid gzips zipcode zips = clean_zipcode (\<lambda>z. isvalid_body gzips z zips) zipcode"

subsection \<open>districtmatch\<close>

text \<open>
  A set is the list of its elements in the order of their first insertion. The order in
  which the interpreter iterates a set follows the hashes of its elements, and those of
  strings change from process to process: it is the parameter \<open>iter\<close>, a function from
  the elements to the sequence in which \<open>join\<close> receives them.
\<close>

definition set_add :: "pyval list \<Rightarrow> pyval \<Rightarrow> pyval list" where
  "set_add s v = (if list_ex (\<lambda>x. py_eq x v) s then s else s @ [v])"

fun districtmatch_loop :: "pystr \<Rightarrow> entry list \<Rightarrow> pyval list \<Rightarrow> pyval list" where
  "districtmatch_loop zipcode [] districts = districts"
| "districtmatch_loop zipcode (entry # zips) districts =
     (case map_of entry (lit ''Pincode'') of
        None \<Rightarrow> districtmatch_loop zipcode zips districts
      | Some p \<Rightarrow>
          if py_str p = zipcode
          then (let dist = dict_get entry (lit ''District'') PNone in
                if truthy dist then districtmatch_loop zipcode zips (set_add districts dist)
                else districtmatch_loop zipcode zips districts)
          else districtmatch_loop zipcode zips districts)"

text \<open>\<open>sep.join(xs)\<close>: TypeError unless every item is a string.\<close>

definition py_join :: "pystr \<Rightarrow> pyval list \<Rightarrow> error + pystr" where
  "py_join sep xs =
     (if list_all isinstance_str xs then Inr (join_strs sep (map py_str xs))
      else Inl (TypeError, []))"

definition districtmatch_body ::
  "(pyval list \<Rightarrow> pyval list) \<Rightarrow> entry list \<Rightarrow> pystr \<Rightarrow> entry list option \<Rightarrow> error + pystr" where
  "districtmatch_body iter gzips zipcode zips =
     (let districts = districtmatch_loop zipcode (zips_or_default gzips zips) [] in
      if districts = [] then Inl (ValueError, ''Invalid Pincode, not found in database'')
      else py_join (lit '', '') (iter districts))"

definition districtmatch ::
  "(pyval list \<Rightarrow> pyval list) \<Rightarrow> entry list \<Rightarrow> pyval \<Rightarrow> entry list option \<Rightarrow> error + pystr" where
  "districtmatch iter gzips zipcode zips =
     clean_zipcode (\<lambda>z. districtmatch_body iter gzips z zips) zipcode"

subsection \<open>coordinates\<close>

record coords =
  latitude :: pystr
  longitude :: pystr

text \<open>
  The result is a dict in insertion order. \<open>d[k] = v\<close> replaces the value of the key equal
  to \<open>k\<close> when there is one, and appends the item otherwise.
\<close>

fun dict_set :: "(pyval \<times> 'v) list \<Rightarrow> pyval \<Rightarrow> 'v \<Rightarrow> (pyval \<times> 'v) list" where
  "dict_set [] k v = [(k, v)]"
| "dict_set ((k', v') # d) k v =
     (if py_eq k' k then (k', v) # d else (k', v') # dict_set d k v)"


fun coordinates_loop :: "entry list \<Rightarrow> (pyval \<times> coords) list \<Rightarrow> (pyval \<times> coords) list" where
  "coordinates_loop [] coords_map = coords_map"
| "coordinates_loop (entry # matches) coords_map =
     (let name = dict_get entry (lit ''Name'') (PStr (lit ''Unknown''));
          lat = dict_get entry (lit ''Latitude'') (PStr []);
          lon = dict_get entry (lit ''Longitude'') (PStr [])
      in coordinates_loop matches
           (dict_set coords_map name \<lparr>latitude = py_str lat, longitude = py_str lon\<rparr>))"

definition coordinates_body ::
  "entry list \<Rightarrow> pystr \<Rightarrow> entry list option \<Rightarrow> error + (pyval \<times> coords) list" where
  "coordinates_body gzips zipcode zips =
     bind_result (matching gzips (PStr zipcode) (Some (zips_or_default gzips zips)))
       (\<lambda>matches. Inr (coordinates_loop matches []))"

definition coordinates ::
  "entry list \<Rightarrow> pyval \<Rightarrow> entry list option \<Rightarrow> error + (pyval \<times> coords) list" where
  "coordinates gzips zipcode zips = clean_zipcode (\<lambda>z. coordinates_body gzips z zips) zipcode"

subsection \<open>nearby\<close>

definition is_center :: "pystr \<Rightarrow> entry \<Rightarrow> bool" where
  "is_center zipcode z =
     ((case map_of z (lit ''Pincode'') of None \<Rightarrow> False | Some p \<Rightarrow> py_str p = zipcode)
      \<and> truthy (dict_get z (lit ''Latitude'') PNone)
      \<and> truthy (dict_get z (lit ''Longitude'') PNone))"

fun nearby_loop ::
  "entry list \<Rightarrow> pyfloat \<Rightarrow> pyfloat \<Rightarrow> pyfloat \<Rightarrow> pystr list \<Rightarrow> error + pystr list" where
  "nearby_loop [] center_lat center_lon max_diff nearby_pins = Inr nearby_pins"
| "nearby_loop (record # zips) center_lat center_lon max_diff nearby_pins =
     (case map_of record (lit ''Pincode'') of
        None \<Rightarrow> nearby_loop zips center_lat center_lon max_diff nearby_pins
      | Some p \<Rightarrow>
          (case py_float (dict_get record (lit ''Latitude'') (PStr [])) of
             Inl e \<Rightarrow>
               if fst e = ValueError
               then nearby_loop zips center_lat center_lon max_diff nearby_pins
               else Inl e
           | Inr lat \<Rightarrow>
               (case py_float (dict_get record (lit ''Longitude'') (PStr [])) of
                  Inl e \<Rightarrow>
                    if fst e = ValueError
                    then nearby_loop zips center_lat center_lon max_diff nearby_pins
                    else Inl e
                | Inr lon \<Rightarrow>
                    (let dist = fadd (fabs (fsub lat center_lat)) (fabs (fsub lon center_lon)) in
                     if fle dist max_diff
                     then nearby_loop zips center_lat center_lon max_diff
                            (List.insert (py_str p) nearby_pins)
                     else nearby_loop zips center_lat center_lon max_diff nearby_pins))))"

definition nearby_body ::
  "entry list \<Rightarrow> pystr \<Rightarrow> pyfloat \<Rightarrow> entry list option \<Rightarrow> error + pystr list" where
  "nearby_body gzips zipcode max_diff zips =
     (let zs = zips_or_default gzips zips;
          center_entries = filter (is_center zipcode) zs
      in case center_entries of
           [] \<Rightarrow> Inr []
         | c # _ \<Rightarrow>
             bind_result (py_float (dict_get c (lit ''Latitude'') PNone)) (\<lambda>center_lat.
             bind_result (py_float (dict_get c (lit ''Longitude'') PNone)) (\<lambda>center_lon.
             bind_result (nearby_loop zs center_lat center_lon max_diff []) (\<lambda>nearby_pins.
               Inr (sort (if zipcode \<in> set nearby_pins then removeAll zipcode nearby_pins
                          else nearby_pins))))))"

definition nearby ::
  "entry list \<Rightarrow> pyval \<Rightarrow> pyfloat \<Rightarrow> entry list option \<Rightarrow> error + pystr list" where
  "nearby gzips zipcode max_diff zips =
     clean_zipcode (\<lambda>z. nearby_body gzips z max_diff zips) zipcode"

definition default_max_diff :: pyfloat where
  "default_max_diff = Fin (5 / 100)"

section \<open>The loader\<close>





section \<open>Notions of the specification\<close>

text \<open>A record carries the code: it has a \<open>Pincode\<close> whose string form is the code.\<close>

definition has_code :: "pystr \<Rightarrow> entry \<Rightarrow> bool" where
  "has_code zipcode entry =
     (case map_of entry (lit ''Pincode'') of None \<Rightarrow> False | Some p \<Rightarrow> py_str p = zipcode)"




text \<open>
  An anchor record of a code: a record of the code with a truthy latitude and longitude
  that \<open>float\<close> converts. \<open>anchor_point\<close> is its point, and \<open>manhattan\<close> the distance
  that nearby compares with \<open>max_diff\<close>.
\<close>

definition parseable :: "pyval \<Rightarrow> bool" where
  "parseable v = (case py_float v of Inl e \<Rightarrow> False | Inr x \<Rightarrow> True)"

definition is_anchor :: "pystr \<Rightarrow> entry \<Rightarrow> bool" where
  "is_anchor zipcode e =
     (has_code zipcode e \<and>
      truthy (dict_get e (lit ''Latitude'') PNone) \<and> truthy (dict_get e (lit ''Longitude'') PNone) \<and>
      parseable (dict_get e (lit ''Latitude'') PNone) \<and>
      parseable (dict_get e (lit ''Longitude'') PNone))"

definition anchor_point :: "entry \<Rightarrow> (pyfloat \<times> pyfloat) option" where
  "anchor_point e =
     (case (py_float (dict_get e (lit ''Latitude'') PNone),
            py_float (dict_get e (lit ''Longitude'') PNone)) of
        (Inr lat, Inr lon) \<Rightarrow> Some (lat, lon)
      | _ \<Rightarrow> None)"

definition manhattan :: "pyfloat \<times> pyfloat \<Rightarrow> pyfloat \<times> pyfloat \<Rightarrow> pyfloat" where
  "manhattan p q = fadd (fabs (fsub (fst p) (fst q))) (fabs (fsub (snd p) (snd q)))"

text \<open>
  The district values of a code: the truthy values of \<open>District\<close> in the records of the
  code (\<open>entry.get("District")\<close> is \<open>None\<close>, which is not truthy, where the key is absent).
\<close>

definition district_values :: "pystr \<Rightarrow> entry list \<Rightarrow> pyval set" where
  "district_values zipcode zs =
     set (filter truthy (map (\<lambda>e. dict_get e (lit ''District'') PNone)
       (filter (has_code zipcode) zs)))"



section \<open>Example records\<close>

definition connaught_place :: entry where
  "connaught_place =
     [(lit ''Pincode'', PStr (lit ''110001'')), (lit ''Name'', PStr (lit ''Connaught Place'')),
      (lit ''District'', PStr (lit ''New Delhi'')), (lit ''Latitude'', PStr (lit ''28.63'')),
      (lit ''Longitude'', PStr (lit ''77.22''))]"

definition parliament_st :: entry where
  "parliament_st =
     [(lit ''Pincode'', PStr (lit ''110001'')), (lit ''Name'', PStr (lit ''Parliament St'')),
      (lit ''District'', PStr (lit ''New Delhi'')), (lit ''Latitude'', PStr (lit ''28.63'')),
      (lit ''Longitude'', PStr (lit ''77.21''))]"

definition karol_bagh :: entry where
  "karol_bagh =
     [(lit ''Pincode'', PInt 110005), (lit ''Name'', PStr (lit ''Karol Bagh'')),
      (lit ''District'', PStr (lit ''Central Delhi'')), (lit ''Latitude'', PFloat (lit ''28.64'')),
      (lit ''Longitude'', PFloat (lit ''77.2''))]"

definition india_gate :: entry where
  "india_gate =
     [(lit ''Pincode'', PInt 110003), (lit ''Name'', PStr (lit ''India Gate'')),
      (lit ''District'', PStr (lit ''New Delhi'')), (lit ''Latitude'', PFloat (lit ''28.61'')),
      (lit ''Longitude'', PFloat (lit ''77.23''))]"

text \<open>A second office named Connaught Place, and a record of code 110001 in another district.\<close>

definition connaught_place_2 :: entry where
  "connaught_place_2 =
     [(lit ''Pincode'', PInt 110001), (lit ''Name'', PStr (lit ''Connaught Place'')),
      (lit ''District'', PStr (lit ''New Delhi'')), (lit ''Latitude'', PFloat (lit ''28.6315''))]"

definition minto_road :: entry where
  "minto_road =
     [(lit ''Pincode'', PInt 110001), (lit ''District'', PStr (lit ''Central Delhi'')),
      (lit ''Latitude'', PNone)]"

text \<open>Two records whose latitude is no number: a string that does not parse, and \<open>None\<close>.\<close>

definition bad_latitude :: entry where
  "bad_latitude =
     [(lit ''Pincode'', PStr (lit ''110001'')), (lit ''Name'', PStr (lit ''Janpath'')),
      (lit ''Latitude'', PStr (lit ''abc'')), (lit ''Longitude'', PStr (lit ''77.22''))]"

definition null_latitude :: entry where
  "null_latitude =
     [(lit ''Pincode'', PStr (lit ''110020'')), (lit ''Name'', PStr (lit ''Okhla'')),
      (lit ''Latitude'', PNone), (lit ''Longitude'', PStr (lit ''77.27''))]"

text \<open>A record whose district is a number.\<close>

definition numeric_district :: entry where
  "numeric_district = [(lit ''Pincode'', PStr (lit ''110001'')), (lit ''District'', PInt 5)]"



section \<open>The validation gate\<close>

lemma bind_result_Inr [simp]: "bind_result r Inr = r"
  by (simp add: bind_result_def split: sum.splits)

lemma bind_result_simps [simp]:
  "bind_result (Inl e) f = Inl e" "bind_result (Inr x) f = f x"
  by (simp_all add: bind_result_def)

lemma raises_simps [simp]:
  "raises (Inl e) x = (fst e = x)" "raises (Inr v) x = False"
  by (simp_all add: raises_def)

lemma gate_PStr:
  "gate (PStr s) =
     (if s = [] then Inl (TypeError, ''Invalid type, pincode must be a string.'') else clean s)"
  by (simp add: gate_def clean_zipcode_def)

lemma gate_not_str:
  "\<not> isinstance_str z \<Longrightarrow> gate z = Inl (TypeError, ''Invalid type, pincode must be a string.'')"
  by (simp add: gate_def clean_zipcode_def)

lemma clean_zipcode_gate: "clean_zipcode fn z = bind_result (gate z) fn"
  by (simp add: gate_def clean_zipcode_def)

lemma clean_cases:
  "clean s = (if length s = 6 \<and> list_all is_decimal s then Inr s
              else Inl (ValueError, if length s \<noteq> 6
                 then ''Invalid format, pincode must be exactly 6 digits.''
                 else ''Invalid characters, pincode may only contain digits.''))"
  by (auto simp: clean_def valid_zipcode_length_def digits_search_def list_ex_iff list_all_iff)

lemma gate_Inr_iff: "gate z = Inr s \<longleftrightarrow> z = PStr s \<and> length s = 6 \<and> list_all is_decimal s"
  by (cases z) (auto simp: gate_PStr gate_not_str clean_cases)

lemma raises_gate_TypeError:
  "raises (gate z) TypeError \<longleftrightarrow> (\<not> isinstance_str z \<or> z = PStr [])"
  by (cases z) (auto simp: gate_PStr gate_not_str clean_cases)

lemma raises_gate_ValueError:
  "s \<noteq> [] \<Longrightarrow>
   raises (gate (PStr s)) ValueError \<longleftrightarrow> (length s \<noteq> 6 \<or> list_ex (\<lambda>c. \<not> is_decimal c) s)"
  by (auto simp: gate_PStr clean_cases list_ex_iff list_all_iff)

lemmas operations_gate =
  matching_def isvalid_def districtmatch_def coordinates_def nearby_def clean_zipcode_gate

lemmas digit_eval = is_decimal_def decimal_ranges_def is_ascii_digit_def lit_def

text \<open>
  C1 (as the code has it). The gate raises TypeError exactly when the argument is not a
  string or is the empty string. For a non-empty string it raises ValueError exactly when
  the length is not 6 or some character is not a decimal digit in the sense of \<open>\d\<close>
  (Unicode category Nd, the ASCII digits among them). Otherwise it returns the string
  unchanged. Each of matching, isvalid, districtmatch, coordinates and nearby fails with
  the gate's exception whatever the dataset is, and runs its body on the gate's result
  otherwise.
\<close>

theorem validation_gate:
  "(raises (gate z) TypeError \<longleftrightarrow> (\<not> isinstance_str z \<or> z = PStr [])) \<and>
   (\<forall>s. z = PStr s \<and> s \<noteq> [] \<longrightarrow>
      (raises (gate z) ValueError \<longleftrightarrow> (length s \<noteq> 6 \<or> list_ex (\<lambda>c. \<not> is_decimal c) s))) \<and>
   (\<forall>s. z = PStr s \<and> length s = 6 \<and> list_all is_decimal s \<longrightarrow> gate z = Inr s) \<and>
   (\<forall>s. gate z = Inr s \<longrightarrow> z = PStr s) \<and>
   (\<forall>e. gate z = Inl e \<longrightarrow>
      matching gzips z zips = Inl e \<and> isvalid gzips z zips = Inl e \<and>
      districtmatch iter gzips z zips = Inl e \<and> coordinates gzips z zips = Inl e \<and>
      nearby gzips z max_diff zips = Inl e) \<and>
   (\<forall>s. gate z = Inr s \<longrightarrow>
      matching gzips z zips = matching_body gzips s zips \<and>
      isvalid gzips z zips = isvalid_body gzips s zips \<and>
      districtmatch iter gzips z zips = districtmatch_body iter gzips s zips \<and>
      coordinates gzips z zips = coordinates_body gzips s zips \<and>
      nearby gzips z max_diff zips = nearby_body gzips s max_diff zips)"
proof -
  have type_part: "raises (gate z) TypeError \<longleftrightarrow> (\<not> isinstance_str z \<or> z = PStr [])"
    by (rule raises_gate_TypeError)
  have value_part: "\<forall>s. z = PStr s \<and> s \<noteq> [] \<longrightarrow>
      (raises (gate z) ValueError \<longleftrightarrow> (length s \<noteq> 6 \<or> list_ex (\<lambda>c. \<not> is_decimal c) s))"
    using raises_gate_ValueError by blast
  have pass_part: "\<forall>s. z = PStr s \<and> length s = 6 \<and> list_all is_decimal s \<longrightarrow> gate z = Inr s"
    by (simp add: gate_Inr_iff)
  have same_part: "\<forall>s. gate z = Inr s \<longrightarrow> z = PStr s"
    by (simp add: gate_Inr_iff)
  have fail_part: "\<forall>e. gate z = Inl e \<longrightarrow>
      matching gzips z zips = Inl e \<and> isvalid gzips z zips = Inl e \<and>
      districtmatch iter gzips z zips = Inl e \<and> coordinates gzips z zips = Inl e \<and>
      nearby gzips z max_diff zips = Inl e"
    by (simp add: operations_gate)
  have run_part: "\<forall>s. gate z = Inr s \<longrightarrow>
      matching gzips z zips = matching_body gzips s zips \<and>
      isvalid gzips z zips = isvalid_body gzips s zips \<and>
      districtmatch iter gzips z zips = districtmatch_body iter gzips s zips \<and>
      coordinates gzips z zips = coordinates_body gzips s zips \<and>
      nearby gzips z max_diff zips = nearby_body gzips s max_diff zips"
    by (simp add: operations_gate)
  from type_part value_part pass_part same_part fail_part run_part show ?thesis
    by blast
qed

theorem validation_gate_witness:
  "gate (PStr (lit ''110001'')) = Inr (lit ''110001'') \<and>
   nearby [] (PStr (lit ''110001'')) default_max_diff None =
     nearby_body [] (lit ''110001'') default_max_diff None"
proof -
  have digits: "PStr (lit ''110001'') = PStr (lit ''110001'') \<and> length (lit ''110001'') = 6 \<and>
      list_all is_decimal (lit ''110001'')"
    by (simp add: digit_eval)
  have passes: "gate (PStr (lit ''110001'')) = Inr (lit ''110001'')"
    using validation_gate [of "PStr (lit ''110001'')"] digits by blast
  have runs: "nearby [] (PStr (lit ''110001'')) default_max_diff None =
     nearby_body [] (lit ''110001'') default_max_diff None"
    using validation_gate [of "PStr (lit ''110001'')" "[]" None id default_max_diff] passes
    by blast
  from passes runs show ?thesis by blast
qed

text \<open>
  C1 as it is written fails: six Devanagari digits (U+0967 to U+096C) contain no ASCII
  digit, and the gate accepts them.
\<close>

theorem validation_gate_ascii_counterexample:
  "\<not> (raises (gate (PStr [2407, 2408, 2409, 2410, 2411, 2412])) ValueError \<longleftrightarrow>
      (length [2407, 2408, 2409, 2410, 2411, 2412 :: nat] \<noteq> 6 \<or>
       list_ex (\<lambda>c. \<not> is_ascii_digit c) [2407, 2408, 2409, 2410, 2411, 2412]))"
  by (simp add: gate_PStr clean_cases digit_eval)

section \<open>Exact-match lookup\<close>

lemma matching_loop_filter:
  "matching_loop s zs results = results @ filter (has_code s) zs"
  by (induction zs arbitrary: results) (auto simp: has_code_def split: option.splits)

lemma gate_valid: "gate z = Inr s \<Longrightarrow> gate (PStr s) = Inr s"
  by (simp add: gate_Inr_iff)

lemma matching_filter:
  "gate z = Inr s \<Longrightarrow>
   matching gzips z zips = Inr (filter (has_code s) (zips_or_default gzips zips))"
  by (simp add: operations_gate matching_body_def matching_loop_filter)

lemma matching_inner:
  assumes "gate z = Inr s"
  shows "matching gzips (PStr s) (Some (zips_or_default gzips zips)) =
      Inr (filter (has_code s) (zips_or_default gzips zips))"
  using matching_filter [OF gate_valid [OF assms]] by (simp add: zips_or_default_def)

lemma isvalid_filter:
  "gate z = Inr s \<Longrightarrow>
   isvalid gzips z zips = Inr (filter (has_code s) (zips_or_default gzips zips) \<noteq> [])"
  by (simp add: isvalid_def clean_zipcode_gate isvalid_body_def matching_inner)

lemma coordinates_filter:
  "gate z = Inr s \<Longrightarrow>
   coordinates gzips z zips =
     Inr (coordinates_loop (filter (has_code s) (zips_or_default gzips zips)) [])"
  by (simp add: coordinates_def clean_zipcode_gate coordinates_body_def matching_inner)

lemma districtmatch_loop_no_match:
  "\<forall>e \<in> set zs. \<not> has_code s e \<Longrightarrow> districtmatch_loop s zs ds = ds"
  by (induction zs arbitrary: ds) (auto simp: has_code_def split: option.splits)

lemma is_center_has_code: "is_center s e \<Longrightarrow> has_code s e"
  by (simp add: is_center_def has_code_def)

lemma gate_110001: "gate (PStr (lit ''110001'')) = Inr (lit ''110001'')"
  by (simp add: gate_Inr_iff digit_eval)

lemma gate_999999: "gate (PStr (lit ''999999'')) = Inr (lit ''999999'')"
  by (simp add: gate_Inr_iff digit_eval)

lemmas entry_eval =
  has_code_def connaught_place_def parliament_st_def karol_bagh_def lit_def str_nat.simps

lemma has_code_examples:
  "has_code (lit ''110001'') connaught_place" "has_code (lit ''110001'') parliament_st"
  "\<not> has_code (lit ''110001'') karol_bagh" "has_code (lit ''110005'') karol_bagh"
  "\<not> has_code (lit ''999999'') connaught_place" "\<not> has_code (lit ''999999'') parliament_st"
  "\<not> has_code (lit ''999999'') karol_bagh"
  by (simp_all add: entry_eval)

text \<open>
  C2. For a code that passes the gate, matching returns the records of the dataset (the
  module's when \<open>zips\<close> is \<open>None\<close>, the caller's otherwise) whose \<open>Pincode\<close>, as a
  string, equals the code: all of them, in the order of the dataset, each as often as it
  occurs.
\<close>

theorem matching_exact:
  "gate z = Inr s \<Longrightarrow>
   matching gzips z None = Inr (filter (has_code s) gzips) \<and>
   matching gzips z (Some zs) = Inr (filter (has_code s) zs)"
  by (simp add: matching_filter zips_or_default_def)

theorem matching_exact_witness:
  "matching [karol_bagh] (PStr (lit ''110001''))
     (Some [connaught_place, karol_bagh, parliament_st, connaught_place]) =
     Inr [connaught_place, parliament_st, connaught_place] \<and>
   matching [karol_bagh] (PStr (lit ''110001'')) None = Inr []"
  using matching_exact [OF gate_110001, of "[karol_bagh]"
      "[connaught_place, karol_bagh, parliament_st, connaught_place]"]
  by (simp add: has_code_examples)

section \<open>Codes that the dataset does not hold\<close>

text \<open>
  C7. For a code that passes the gate and is the \<open>Pincode\<close> of no record of the dataset:
  matching returns the empty list, isvalid returns False, districtmatch raises the
  ValueError "not found", coordinates returns the empty dict and nearby the empty list.
\<close>

theorem absent_code:
  assumes "gate z = Inr s" and "\<forall>e \<in> set (zips_or_default gzips zips). \<not> has_code s e"
  shows "matching gzips z zips = Inr [] \<and> isvalid gzips z zips = Inr False \<and>
     districtmatch iter gzips z zips =
       Inl (ValueError, ''Invalid Pincode, not found in database'') \<and>
     coordinates gzips z zips = Inr [] \<and> nearby gzips z max_diff zips = Inr []"
proof -
  from assms(2) have none: "filter (has_code s) (zips_or_default gzips zips) = []"
    by (simp add: filter_empty_conv)
  from assms(2) have nocenter: "filter (is_center s) (zips_or_default gzips zips) = []"
    by (auto simp: filter_empty_conv dest: is_center_has_code)
  have m: "matching gzips z zips = Inr []"
    using assms(1) none by (simp add: matching_filter)
  have v: "isvalid gzips z zips = Inr False"
    using assms(1) none by (simp add: isvalid_filter)
  have d: "districtmatch iter gzips z zips =
      Inl (ValueError, ''Invalid Pincode, not found in database'')"
    using assms by (simp add: operations_gate districtmatch_body_def districtmatch_loop_no_match)
  have c: "coordinates gzips z zips = Inr []"
    using assms(1) none by (simp add: coordinates_filter)
  have n: "nearby gzips z max_diff zips = Inr []"
    using assms(1) nocenter by (simp add: operations_gate nearby_body_def)
  from m v d c n show ?thesis by blast
qed

theorem absent_code_witness:
  "matching [] (PStr (lit ''999999'')) (Some [connaught_place, parliament_st, karol_bagh]) = Inr [] \<and>
   isvalid [] (PStr (lit ''999999'')) (Some [connaught_place, parliament_st, karol_bagh]) = Inr False \<and>
   districtmatch id [] (PStr (lit ''999999'')) (Some [connaught_place, parliament_st, karol_bagh]) =
     Inl (ValueError, ''Invalid Pincode, not found in database'') \<and>
   coordinates [] (PStr (lit ''999999'')) (Some [connaught_place, parliament_st, karol_bagh]) = Inr [] \<and>
   nearby [] (PStr (lit ''999999'')) default_max_diff
     (Some [connaught_place, parliament_st, karol_bagh]) = Inr []"
proof -
  have none: "\<forall>e \<in> set (zips_or_default [] (Some [connaught_place, parliament_st, karol_bagh])).
      \<not> has_code (lit ''999999'') e"
    by (simp add: zips_or_default_def has_code_examples)
  show ?thesis
    by (rule absent_code [OF gate_999999 none])
qed

section \<open>Exception classes\<close>

text \<open>
  C10. Every failure of \<open>_clean\<close> is a ValueError, and so is the "not found" failure of
  districtmatch: a call of districtmatch with a malformed string and a call with a
  well-formed code that has no district both raise ValueError, with different messages.
  A call whose argument is not a string or is empty raises TypeError, a different class.
\<close>

theorem exception_classes:
  "(\<forall>e. clean s = Inl e \<longrightarrow>
      fst e = ValueError \<and> snd e \<noteq> ''Invalid Pincode, not found in database'') \<and>
   (s \<noteq> [] \<and> (length s \<noteq> 6 \<or> list_ex (\<lambda>c. \<not> is_decimal c) s) \<longrightarrow>
      raises (districtmatch iter gzips (PStr s) zips) ValueError) \<and>
   (gate (PStr s) = Inr s \<and> districtmatch_loop s (zips_or_default gzips zips) [] = [] \<longrightarrow>
      raises (districtmatch iter gzips (PStr s) zips) ValueError \<and>
      districtmatch iter gzips (PStr s) zips =
        Inl (ValueError, ''Invalid Pincode, not found in database'')) \<and>
   (\<not> isinstance_str z \<or> z = PStr [] \<longrightarrow> raises (districtmatch iter gzips z zips) TypeError) \<and>
   TypeError \<noteq> ValueError"
proof -
  have format_part: "\<forall>e. clean s = Inl e \<longrightarrow>
      fst e = ValueError \<and> snd e \<noteq> ''Invalid Pincode, not found in database''"
    by (auto simp: clean_cases split: if_splits)
  have malformed_part: "s \<noteq> [] \<and> (length s \<noteq> 6 \<or> list_ex (\<lambda>c. \<not> is_decimal c) s) \<longrightarrow>
      raises (districtmatch iter gzips (PStr s) zips) ValueError"
    by (auto simp: districtmatch_def clean_zipcode_gate gate_PStr clean_cases list_ex_iff
        list_all_iff)
  have notfound_part:
    "gate (PStr s) = Inr s \<and> districtmatch_loop s (zips_or_default gzips zips) [] = [] \<longrightarrow>
      raises (districtmatch iter gzips (PStr s) zips) ValueError \<and>
      districtmatch iter gzips (PStr s) zips =
        Inl (ValueError, ''Invalid Pincode, not found in database'')"
    by (simp add: districtmatch_def clean_zipcode_gate districtmatch_body_def)
  have type_part:
    "\<not> isinstance_str z \<or> z = PStr [] \<longrightarrow> raises (districtmatch iter gzips z zips) TypeError"
    by (auto simp: districtmatch_def clean_zipcode_gate gate_PStr gate_not_str)
  from format_part malformed_part notfound_part type_part show ?thesis
    by blast
qed

theorem exception_classes_witness:
  "raises (districtmatch id [] (PStr (lit ''11000'')) None) ValueError \<and>
   raises (districtmatch id [] (PStr (lit ''110001'')) None) ValueError \<and>
   raises (districtmatch id [] PNone None) TypeError"
proof -
  have short: "lit ''11000'' \<noteq> [] \<and>
      (length (lit ''11000'') \<noteq> 6 \<or> list_ex (\<lambda>c. \<not> is_decimal c) (lit ''11000''))"
    by (simp add: lit_def)
  have empty: "gate (PStr (lit ''110001'')) = Inr (lit ''110001'') \<and>
      districtmatch_loop (lit ''110001'') (zips_or_default [] None) [] = []"
    by (simp add: gate_110001 zips_or_default_def)
  have none: "\<not> isinstance_str PNone \<or> PNone = PStr []"
    by simp
  from short exception_classes [of "lit ''11000''" id "[]" None PNone]
  have a: "raises (districtmatch id [] (PStr (lit ''11000'')) None) ValueError" by blast
  from empty exception_classes [of "lit ''110001''" id "[]" None PNone]
  have b: "raises (districtmatch id [] (PStr (lit ''110001'')) None) ValueError" by blast
  from none exception_classes [of "lit ''110001''" id "[]" None PNone]
  have c: "raises (districtmatch id [] PNone None) TypeError" by blast
  from a b c show ?thesis by blast
qed

section \<open>Admission of lines by the loader\<close>

lemma lit_eq_iff [simp]: "lit a = lit b \<longleftrightarrow> a = b"
  by (simp add: lit_def inj_map_eq_map inj_on_def)

lemma lit_nonempty [simp]: "lit (c # cs) \<noteq> []"
  by (simp add: lit_def)















section \<open>Evaluation of the example records\<close>

lemmas float_eval =
  float_of_str_def lit_def to_ascii_def c_strip_def c_isspace_def take_sign_def to_lower_def
  parse_number_def is_ascii_digit_def parse_exponent_def digits_value_def pow10_def
  float_overflow_def

lemma float_of_str_examples:
  "float_of_str (lit ''28.63'') = Some (Fin (2863 / 100))"
  "float_of_str (lit ''28.64'') = Some (Fin (2864 / 100))"
  "float_of_str (lit ''28.61'') = Some (Fin (2861 / 100))"
  "float_of_str (lit ''77.22'') = Some (Fin (7722 / 100))"
  "float_of_str (lit ''77.21'') = Some (Fin (7721 / 100))"
  "float_of_str (lit ''77.2'') = Some (Fin (772 / 10))"
  "float_of_str (lit ''77.23'') = Some (Fin (7723 / 100))"
  "float_of_str (lit ''77.27'') = Some (Fin (7727 / 100))"
  "float_of_str (lit ''abc'') = None"
  by (simp_all add: float_eval)

lemma py_str_examples:
  "str_nat 110005 = lit ''110005''" "str_nat 110003 = lit ''110003''"
  "lit ''110003'' \<le> lit ''110005''"
  by (simp_all add: str_nat.simps lit_def)

lemma fields_connaught_place:
  "map_of connaught_place (lit ''Pincode'') = Some (PStr (lit ''110001''))"
  "map_of connaught_place (lit ''Name'') = Some (PStr (lit ''Connaught Place''))"
  "map_of connaught_place (lit ''District'') = Some (PStr (lit ''New Delhi''))"
  "map_of connaught_place (lit ''Latitude'') = Some (PStr (lit ''28.63''))"
  "map_of connaught_place (lit ''Longitude'') = Some (PStr (lit ''77.22''))"
  by (simp_all add: connaught_place_def)

lemma fields_parliament_st:
  "map_of parliament_st (lit ''Pincode'') = Some (PStr (lit ''110001''))"
  "map_of parliament_st (lit ''Name'') = Some (PStr (lit ''Parliament St''))"
  "map_of parliament_st (lit ''District'') = Some (PStr (lit ''New Delhi''))"
  "map_of parliament_st (lit ''Latitude'') = Some (PStr (lit ''28.63''))"
  "map_of parliament_st (lit ''Longitude'') = Some (PStr (lit ''77.21''))"
  by (simp_all add: parliament_st_def)

lemma fields_karol_bagh:
  "map_of karol_bagh (lit ''Pincode'') = Some (PInt 110005)"
  "map_of karol_bagh (lit ''Name'') = Some (PStr (lit ''Karol Bagh''))"
  "map_of karol_bagh (lit ''District'') = Some (PStr (lit ''Central Delhi''))"
  "map_of karol_bagh (lit ''Latitude'') = Some (PFloat (lit ''28.64''))"
  "map_of karol_bagh (lit ''Longitude'') = Some (PFloat (lit ''77.2''))"
  by (simp_all add: karol_bagh_def)

lemma fields_india_gate:
  "map_of india_gate (lit ''Pincode'') = Some (PInt 110003)"
  "map_of india_gate (lit ''Name'') = Some (PStr (lit ''India Gate''))"
  "map_of india_gate (lit ''District'') = Some (PStr (lit ''New Delhi''))"
  "map_of india_gate (lit ''Latitude'') = Some (PFloat (lit ''28.61''))"
  "map_of india_gate (lit ''Longitude'') = Some (PFloat (lit ''77.23''))"
  by (simp_all add: india_gate_def)

lemma fields_bad_latitude:
  "map_of bad_latitude (lit ''Pincode'') = Some (PStr (lit ''110001''))"
  "map_of bad_latitude (lit ''Latitude'') = Some (PStr (lit ''abc''))"
  "map_of bad_latitude (lit ''Longitude'') = Some (PStr (lit ''77.22''))"
  by (simp_all add: bad_latitude_def)

lemma fields_null_latitude:
  "map_of null_latitude (lit ''Pincode'') = Some (PStr (lit ''110020''))"
  "map_of null_latitude (lit ''Latitude'') = Some PNone"
  "map_of null_latitude (lit ''Longitude'') = Some (PStr (lit ''77.27''))"
  by (simp_all add: null_latitude_def)

lemmas fields =
  fields_connaught_place fields_parliament_st fields_karol_bagh fields_india_gate
  fields_bad_latitude fields_null_latitude

lemmas nearby_eval =
  nearby_body_def zips_or_default_def is_center_def dict_get_def fields float_value_def
  float_of_str_examples py_str_examples fsub_def default_max_diff_def

lemma nearby_110001:
  "nearby gzips (PStr (lit ''110001'')) default_max_diff
     (Some [karol_bagh, connaught_place, india_gate, parliament_st]) =
     Inr [lit ''110003'', lit ''110005'']"
proof -
  have "nearby_body gzips (lit ''110001'') default_max_diff
     (Some [karol_bagh, connaught_place, india_gate, parliament_st]) =
     Inr [lit ''110003'', lit ''110005'']"
    by (simp add: nearby_eval)
  then show ?thesis
    by (simp add: nearby_def clean_zipcode_gate gate_110001)
qed

section \<open>Proximity search\<close>

lemma nearby_loop_distinct:
  "nearby_loop zs clat clon m pins = Inr out \<Longrightarrow> distinct pins \<Longrightarrow> distinct out"
proof (induction zs arbitrary: pins)
  case Nil
  then show ?case by simp
next
  case (Cons r zs)
  from Cons.prems show ?case
    by (auto simp: Let_def split: option.splits sum.splits if_splits
        intro: Cons.IH [of pins] Cons.IH [of "List.insert x pins" for x])
qed

lemma nearby_body_result:
  assumes "nearby_body gzips s max_diff zips = Inr xs"
  shows "s \<notin> set xs \<and> distinct xs \<and> sorted xs"
proof (cases "filter (is_center s) (zips_or_default gzips zips)")
  case Nil
  with assms show ?thesis by (simp add: nearby_body_def)
next
  case (Cons c cs)
  with assms obtain clat clon pins where
    loop: "nearby_loop (zips_or_default gzips zips) clat clon max_diff [] = Inr pins" and
    xs: "xs = sort (if s \<in> set pins then removeAll s pins else pins)"
    by (auto simp: nearby_body_def bind_result_def split: sum.splits)
  from nearby_loop_distinct [OF loop] have "distinct pins" by simp
  with xs show ?thesis by (auto simp: distinct_removeAll)
qed

text \<open>
  C3. Whatever the dataset, the code and \<open>max_diff\<close> are: a list that nearby returns does
  not hold the reference code, has no duplicates, and is sorted in the order of strings.
\<close>

theorem nearby_result:
  assumes "nearby gzips z max_diff zips = Inr xs"
  shows "(\<exists>s. z = PStr s \<and> s \<notin> set xs) \<and> distinct xs \<and> sorted xs"
proof -
  from assms obtain s where g: "gate z = Inr s"
    by (cases "gate z") (auto simp: nearby_def clean_zipcode_gate)
  with assms have "nearby_body gzips s max_diff zips = Inr xs"
    by (simp add: nearby_def clean_zipcode_gate)
  from nearby_body_result [OF this] g show ?thesis
    by (auto simp: gate_Inr_iff)
qed

theorem nearby_result_witness:
  "nearby [] (PStr (lit ''110001'')) default_max_diff
     (Some [karol_bagh, connaught_place, india_gate, parliament_st]) =
     Inr [lit ''110003'', lit ''110005''] \<and>
   lit ''110001'' \<notin> set [lit ''110003'', lit ''110005''] \<and>
   distinct [lit ''110003'', lit ''110005''] \<and> sorted [lit ''110003'', lit ''110005'']"
proof -
  have run: "nearby [] (PStr (lit ''110001'')) default_max_diff
     (Some [karol_bagh, connaught_place, india_gate, parliament_st]) =
     Inr [lit ''110003'', lit ''110005'']"
    by (rule nearby_110001)
  from nearby_result [OF run] run show ?thesis
    by blast
qed

lemma nearby_loop_skip:
  "raises (py_float (dict_get r (lit ''Latitude'') (PStr []))) ValueError \<Longrightarrow>
   nearby_loop (r # zs) clat clon m pins = nearby_loop zs clat clon m pins"
  "py_float (dict_get r (lit ''Latitude'') (PStr [])) = Inr lat \<Longrightarrow>
   raises (py_float (dict_get r (lit ''Longitude'') (PStr []))) ValueError \<Longrightarrow>
   nearby_loop (r # zs) clat clon m pins = nearby_loop zs clat clon m pins"
  by (auto simp: raises_def split: option.splits sum.splits)

lemma nearby_body_anchor:
  "filter (is_center s) (zips_or_default gzips zips) = c # cs \<Longrightarrow>
   raises (py_float (dict_get c (lit ''Latitude'') PNone)) x \<Longrightarrow>
   raises (nearby_body gzips s max_diff zips) x"
  "filter (is_center s) (zips_or_default gzips zips) = c # cs \<Longrightarrow>
   py_float (dict_get c (lit ''Latitude'') PNone) = Inr lat \<Longrightarrow>
   raises (py_float (dict_get c (lit ''Longitude'') PNone)) x \<Longrightarrow>
   raises (nearby_body gzips s max_diff zips) x"
  by (auto simp: nearby_body_def raises_def split: sum.splits)

lemma nearby_bad_latitude:
  "nearby gzips (PStr (lit ''110001'')) max_diff (Some (bad_latitude # zs)) = Inl (ValueError, [])"
  by (simp add: nearby_def clean_zipcode_gate gate_110001 nearby_body_def zips_or_default_def
      is_center_def dict_get_def fields float_of_str_examples)

text \<open>
  C9. The conversions of the anchor are not guarded: when the first record of the code with
  a truthy latitude and longitude has one that \<open>float\<close> rejects with ValueError, nearby
  raises that ValueError. In the scan a record whose latitude or longitude \<open>float\<close> rejects
  with ValueError is skipped. A dataset that starts with a record of code 110001 and
  latitude "abc" makes nearby("110001") raise ValueError.
\<close>

theorem unguarded_anchor:
  "(\<forall>c cs. filter (is_center s) (zips_or_default gzips zips) = c # cs \<and>
      raises (py_float (dict_get c (lit ''Latitude'') PNone)) ValueError \<longrightarrow>
      raises (nearby_body gzips s max_diff zips) ValueError) \<and>
   (\<forall>c cs lat. filter (is_center s) (zips_or_default gzips zips) = c # cs \<and>
      py_float (dict_get c (lit ''Latitude'') PNone) = Inr lat \<and>
      raises (py_float (dict_get c (lit ''Longitude'') PNone)) ValueError \<longrightarrow>
      raises (nearby_body gzips s max_diff zips) ValueError) \<and>
   (raises (py_float (dict_get r (lit ''Latitude'') (PStr []))) ValueError \<longrightarrow>
      nearby_loop (r # zs) clat clon max_diff pins = nearby_loop zs clat clon max_diff pins) \<and>
   (\<forall>lat. py_float (dict_get r (lit ''Latitude'') (PStr [])) = Inr lat \<and>
      raises (py_float (dict_get r (lit ''Longitude'') (PStr []))) ValueError \<longrightarrow>
      nearby_loop (r # zs) clat clon max_diff pins = nearby_loop zs clat clon max_diff pins) \<and>
   raises (nearby gzips (PStr (lit ''110001'')) max_diff (Some (bad_latitude # zs))) ValueError"
proof -
  have anchor_lat: "\<forall>c cs. filter (is_center s) (zips_or_default gzips zips) = c # cs \<and>
      raises (py_float (dict_get c (lit ''Latitude'') PNone)) ValueError \<longrightarrow>
      raises (nearby_body gzips s max_diff zips) ValueError"
    using nearby_body_anchor(1) by blast
  have anchor_lon: "\<forall>c cs lat. filter (is_center s) (zips_or_default gzips zips) = c # cs \<and>
      py_float (dict_get c (lit ''Latitude'') PNone) = Inr lat \<and>
      raises (py_float (dict_get c (lit ''Longitude'') PNone)) ValueError \<longrightarrow>
      raises (nearby_body gzips s max_diff zips) ValueError"
    using nearby_body_anchor(2) by blast
  have scan_lat: "raises (py_float (dict_get r (lit ''Latitude'') (PStr []))) ValueError \<longrightarrow>
      nearby_loop (r # zs) clat clon max_diff pins = nearby_loop zs clat clon max_diff pins"
    using nearby_loop_skip(1) by blast
  have scan_lon: "\<forall>lat. py_float (dict_get r (lit ''Latitude'') (PStr [])) = Inr lat \<and>
      raises (py_float (dict_get r (lit ''Longitude'') (PStr []))) ValueError \<longrightarrow>
      nearby_loop (r # zs) clat clon max_diff pins = nearby_loop zs clat clon max_diff pins"
    using nearby_loop_skip(2) by blast
  have example:
    "raises (nearby gzips (PStr (lit ''110001'')) max_diff (Some (bad_latitude # zs))) ValueError"
    by (simp add: nearby_bad_latitude)
  from anchor_lat anchor_lon scan_lat scan_lon example show ?thesis
    by blast
qed

theorem unguarded_anchor_witness:
  "raises (nearby [] (PStr (lit ''110001'')) default_max_diff
     (Some [bad_latitude, connaught_place, karol_bagh])) ValueError \<and>
   nearby_loop [bad_latitude, karol_bagh] (Fin (2863 / 100)) (Fin (7722 / 100))
     default_max_diff [] =
   nearby_loop [karol_bagh] (Fin (2863 / 100)) (Fin (7722 / 100)) default_max_diff []"
proof -
  have unparsed:
    "raises (py_float (dict_get bad_latitude (lit ''Latitude'') (PStr []))) ValueError"
    by (simp add: dict_get_def fields float_of_str_examples)
  from unguarded_anchor [of "lit ''110001''" "[]" None default_max_diff bad_latitude
      "[connaught_place, karol_bagh]" "Fin (2863 / 100)" "Fin (7722 / 100)" "[]"]
  have raised: "raises (nearby [] (PStr (lit ''110001'')) default_max_diff
      (Some [bad_latitude, connaught_place, karol_bagh])) ValueError"
    by blast
  from unparsed unguarded_anchor [of "lit ''110001''" "[]" None default_max_diff bad_latitude
      "[karol_bagh]" "Fin (2863 / 100)" "Fin (7722 / 100)" "[]"]
  have skipped: "nearby_loop [bad_latitude, karol_bagh] (Fin (2863 / 100)) (Fin (7722 / 100))
      default_max_diff [] =
    nearby_loop [karol_bagh] (Fin (2863 / 100)) (Fin (7722 / 100)) default_max_diff []"
    by blast
  from raised skipped show ?thesis by blast
qed

subsection \<open>Symmetry\<close>

lemma fabs_fsub_commute: "fabs (fsub x y) = fabs (fsub y x)"
  by (cases x; cases y) (simp_all add: fsub_def)

lemma manhattan_commute: "manhattan p q = manhattan q p"
  by (simp add: manhattan_def fabs_fsub_commute [of "fst p"] fabs_fsub_commute [of "snd p"])

lemma nearby_loop_step:
  "nearby_loop (r # zs) clat clon m pins = Inr out \<Longrightarrow>
   \<exists>pins'. set pins \<subseteq> set pins' \<and> nearby_loop zs clat clon m pins' = Inr out"
proof (cases "map_of r (lit ''Pincode'')")
  case None
  assume "nearby_loop (r # zs) clat clon m pins = Inr out"
  with None have "nearby_loop zs clat clon m pins = Inr out" by simp
  then show ?thesis by blast
next
  case (Some p)
  assume run: "nearby_loop (r # zs) clat clon m pins = Inr out"
  with Some have "nearby_loop zs clat clon m pins = Inr out \<or>
      nearby_loop zs clat clon m (List.insert (py_str p) pins) = Inr out"
    by (auto simp: Let_def split: sum.splits if_splits)
  then show ?thesis
  proof
    assume "nearby_loop zs clat clon m pins = Inr out"
    then show ?thesis by blast
  next
    assume "nearby_loop zs clat clon m (List.insert (py_str p) pins) = Inr out"
    moreover have "set pins \<subseteq> set (List.insert (py_str p) pins)" by auto
    ultimately show ?thesis by blast
  qed
qed

lemma nearby_loop_mono:
  "nearby_loop zs clat clon m pins = Inr out \<Longrightarrow> set pins \<subseteq> set out"
proof (induction zs arbitrary: pins)
  case Nil
  then show ?case by simp
next
  case (Cons r zs)
  from nearby_loop_step [OF Cons.prems] obtain pins' where
    "set pins \<subseteq> set pins'" "nearby_loop zs clat clon m pins' = Inr out" by blast
  with Cons.IH [of pins'] show ?case by blast
qed

lemma nearby_loop_member:
  assumes "nearby_loop zs clat clon m pins = Inr out" and "r \<in> set zs"
    and "map_of r (lit ''Pincode'') = Some p"
    and "py_float (dict_get r (lit ''Latitude'') (PStr [])) = Inr lat"
    and "py_float (dict_get r (lit ''Longitude'') (PStr [])) = Inr lon"
    and "fle (manhattan (lat, lon) (clat, clon)) m"
  shows "py_str p \<in> set out"
  using assms(1,2)
proof (induction zs arbitrary: pins)
  case Nil
  then show ?case by simp
next
  case (Cons q zs)
  show ?case
  proof (cases "q = r")
    case True
    with Cons.prems(1) assms(3-6)
    have "nearby_loop zs clat clon m (List.insert (py_str p) pins) = Inr out"
      by (simp add: manhattan_def)
    from nearby_loop_mono [OF this] show ?thesis by auto
  next
    case False
    with Cons.prems(2) have "r \<in> set zs" by simp
    moreover from nearby_loop_step [OF Cons.prems(1)] obtain pins' where
      "nearby_loop zs clat clon m pins' = Inr out" by blast
    ultimately show ?thesis by (rule Cons.IH [rotated])
  qed
qed

lemma dict_get_truthy:
  "truthy (dict_get e k PNone) \<Longrightarrow> dict_get e k d = dict_get e k PNone"
  by (auto simp: dict_get_def split: option.splits)

lemma anchor_point_Some:
  "anchor_point e = Some (lat, lon) \<longleftrightarrow>
     py_float (dict_get e (lit ''Latitude'') PNone) = Inr lat \<and>
     py_float (dict_get e (lit ''Longitude'') PNone) = Inr lon"
  by (cases "py_float (dict_get e (lit ''Latitude'') PNone)";
      cases "py_float (dict_get e (lit ''Longitude'') PNone)")
    (simp_all add: anchor_point_def)

lemma nearby_body_anchored:
  assumes "filter (is_center s) (zips_or_default gzips zips) = c # cs"
    and "anchor_point c = Some (clat, clon)"
  shows "nearby_body gzips s max_diff zips =
     bind_result (nearby_loop (zips_or_default gzips zips) clat clon max_diff [])
       (\<lambda>pins. Inr (sort (if s \<in> set pins then removeAll s pins else pins)))"
  using assms by (simp add: nearby_body_def anchor_point_Some)

lemma nearby_body_member:
  assumes ret: "nearby_body gzips a max_diff zips = Inr xs"
    and ca: "filter (is_center a) (zips_or_default gzips zips) = ea # eas"
    and cb: "filter (is_center b) (zips_or_default gzips zips) = eb # ebs"
    and pa: "anchor_point ea = Some pa" and pb: "anchor_point eb = Some pb"
    and near: "fle (manhattan pb pa) max_diff" and ne: "a \<noteq> b"
  shows "b \<in> set xs"
proof -
  obtain clat clon where pa_eq: "pa = (clat, clon)" by (cases pa)
  obtain lat lon where pb_eq: "pb = (lat, lon)" by (cases pb)
  from ret nearby_body_anchored [OF ca pa [unfolded pa_eq]]
  have bound: "bind_result (nearby_loop (zips_or_default gzips zips) clat clon max_diff [])
       (\<lambda>pins. Inr (sort (if a \<in> set pins then removeAll a pins else pins))) = Inr xs"
    by simp
  then obtain pins where
    loop: "nearby_loop (zips_or_default gzips zips) clat clon max_diff [] = Inr pins" and
    xs: "xs = sort (if a \<in> set pins then removeAll a pins else pins)"
    by (cases "nearby_loop (zips_or_default gzips zips) clat clon max_diff []") auto
  from cb have "eb \<in> set (filter (is_center b) (zips_or_default gzips zips))" by simp
  then have mem: "eb \<in> set (zips_or_default gzips zips)" and cen: "is_center b eb" by simp_all
  from cen obtain p where code: "map_of eb (lit ''Pincode'') = Some p" "py_str p = b"
    by (cases "map_of eb (lit ''Pincode'')") (simp_all add: is_center_def)
  from cen have tr: "truthy (dict_get eb (lit ''Latitude'') PNone)"
    "truthy (dict_get eb (lit ''Longitude'') PNone)"
    by (simp_all add: is_center_def)
  have same:
    "dict_get eb (lit ''Latitude'') (PStr []) = dict_get eb (lit ''Latitude'') PNone"
    "dict_get eb (lit ''Longitude'') (PStr []) = dict_get eb (lit ''Longitude'') PNone"
    by (rule dict_get_truthy [OF tr(1)], rule dict_get_truthy [OF tr(2)])
  from pb [unfolded pb_eq] have fb:
    "py_float (dict_get eb (lit ''Latitude'') (PStr [])) = Inr lat"
    "py_float (dict_get eb (lit ''Longitude'') (PStr [])) = Inr lon"
    by (simp_all add: same anchor_point_Some)
  from near have close: "fle (manhattan (lat, lon) (clat, clon)) max_diff"
    by (simp add: pa_eq pb_eq)
  from nearby_loop_member [OF loop mem code(1) fb close] code(2) have "b \<in> set pins"
    by simp
  with ne have "b \<in> set (if a \<in> set pins then removeAll a pins else pins)"
    by simp
  then show ?thesis by (simp add: xs)
qed

text \<open>
  Where both calls return, the claim of symmetry holds: of two codes whose anchors (the
  first record of each with a truthy latitude and longitude) lie within \<open>max_diff\<close> of
  each other, each is in the other's result.
\<close>

lemma nearby_symmetric_when_returning:
  assumes "nearby_body gzips a max_diff zips = Inr xs"
    and "nearby_body gzips b max_diff zips = Inr ys"
    and "filter (is_center a) (zips_or_default gzips zips) = ea # eas"
    and "filter (is_center b) (zips_or_default gzips zips) = eb # ebs"
    and "anchor_point ea = Some pa" and "anchor_point eb = Some pb"
    and "fle (manhattan pa pb) max_diff" and "a \<noteq> b"
  shows "b \<in> set xs \<and> a \<in> set ys"
proof -
  from assms(7) have rev_near: "fle (manhattan pb pa) max_diff"
    by (simp add: manhattan_commute)
  from assms(8) have ne: "b \<noteq> a" by simp
  have "b \<in> set xs"
    by (rule nearby_body_member [OF assms(1) assms(3) assms(4) assms(5) assms(6) rev_near assms(8)])
  moreover have "a \<in> set ys"
    by (rule nearby_body_member [OF assms(2) assms(4) assms(3) assms(6) assms(5) assms(7) ne])
  ultimately show ?thesis by blast
qed

lemmas anchor_eval =
  is_anchor_def has_code_def parseable_def anchor_point_def dict_get_def fields float_value_def
  float_of_str_examples py_str_examples

text \<open>
  C4 fails on the code. In the dataset \<open>[bad_latitude, connaught_place, karol_bagh]\<close> the
  codes 110001 and 110005 have one anchor record each, 0.03 apart. nearby("110005")
  returns 110001, but nearby("110001") raises ValueError: its first record with a truthy
  latitude and longitude is \<open>bad_latitude\<close>, which \<open>float\<close> rejects. In the dataset
  \<open>[connaught_place, karol_bagh, null_latitude]\<close> both calls raise TypeError in the scan,
  at the record whose latitude is \<open>None\<close>.
\<close>

theorem nearby_symmetry_failing_input:
  "filter (is_anchor (lit ''110001'')) [bad_latitude, connaught_place, karol_bagh] =
     [connaught_place] \<and>
   filter (is_anchor (lit ''110005'')) [bad_latitude, connaught_place, karol_bagh] =
     [karol_bagh] \<and>
   anchor_point connaught_place = Some (Fin (2863 / 100), Fin (7722 / 100)) \<and>
   anchor_point karol_bagh = Some (Fin (2864 / 100), Fin (772 / 10)) \<and>
   fle (manhattan (Fin (2863 / 100), Fin (7722 / 100)) (Fin (2864 / 100), Fin (772 / 10)))
     default_max_diff \<and>
   nearby [] (PStr (lit ''110005'')) default_max_diff
     (Some [bad_latitude, connaught_place, karol_bagh]) = Inr [lit ''110001''] \<and>
   nearby [] (PStr (lit ''110001'')) default_max_diff
     (Some [bad_latitude, connaught_place, karol_bagh]) = Inl (ValueError, []) \<and>
   filter (is_anchor (lit ''110001'')) [connaught_place, karol_bagh, null_latitude] =
     [connaught_place] \<and>
   filter (is_anchor (lit ''110005'')) [connaught_place, karol_bagh, null_latitude] =
     [karol_bagh] \<and>
   nearby [] (PStr (lit ''110001'')) default_max_diff
     (Some [connaught_place, karol_bagh, null_latitude]) = Inl (TypeError, []) \<and>
   nearby [] (PStr (lit ''110005'')) default_max_diff
     (Some [connaught_place, karol_bagh, null_latitude]) = Inl (TypeError, [])"
proof -
  have gate_110005: "gate (PStr (lit ''110005'')) = Inr (lit ''110005'')"
    by (simp add: gate_Inr_iff digit_eval)
  have anchors1:
    "filter (is_anchor (lit ''110001'')) [bad_latitude, connaught_place, karol_bagh] =
       [connaught_place]"
    "filter (is_anchor (lit ''110005'')) [bad_latitude, connaught_place, karol_bagh] =
       [karol_bagh]"
    by (simp_all add: anchor_eval)
  have anchors2:
    "filter (is_anchor (lit ''110001'')) [connaught_place, karol_bagh, null_latitude] =
       [connaught_place]"
    "filter (is_anchor (lit ''110005'')) [connaught_place, karol_bagh, null_latitude] =
       [karol_bagh]"
    by (simp_all add: anchor_eval)
  have points: "anchor_point connaught_place = Some (Fin (2863 / 100), Fin (7722 / 100))"
    "anchor_point karol_bagh = Some (Fin (2864 / 100), Fin (772 / 10))"
    by (simp_all add: anchor_eval)
  have near:
    "fle (manhattan (Fin (2863 / 100), Fin (7722 / 100)) (Fin (2864 / 100), Fin (772 / 10)))
       default_max_diff"
    by (simp add: manhattan_def fsub_def default_max_diff_def)
  have ret1: "nearby [] (PStr (lit ''110005'')) default_max_diff
      (Some [bad_latitude, connaught_place, karol_bagh]) = Inr [lit ''110001'']"
    by (simp add: nearby_def clean_zipcode_gate gate_110005 nearby_eval)
  have forth1: "nearby [] (PStr (lit ''110001'')) default_max_diff
      (Some [bad_latitude, connaught_place, karol_bagh]) = Inl (ValueError, [])"
    by (rule nearby_bad_latitude)
  have forth2: "nearby [] (PStr (lit ''110001'')) default_max_diff
      (Some [connaught_place, karol_bagh, null_latitude]) = Inl (TypeError, [])"
    by (simp add: nearby_def clean_zipcode_gate gate_110001 nearby_eval)
  have ret2: "nearby [] (PStr (lit ''110005'')) default_max_diff
      (Some [connaught_place, karol_bagh, null_latitude]) = Inl (TypeError, [])"
    by (simp add: nearby_def clean_zipcode_gate gate_110005 nearby_eval)
  from anchors1 anchors2 points near ret1 forth1 forth2 ret2 show ?thesis
    by blast
qed

section \<open>District aggregation\<close>

lemma set_add_nonempty: "set_add ds v \<noteq> []"
  by (cases ds) (simp_all add: set_add_def)

lemma district_values_Cons:
  "district_values s (e # zs) =
     (if has_code s e \<and> truthy (dict_get e (lit ''District'') PNone)
      then insert (dict_get e (lit ''District'') PNone) (district_values s zs)
      else district_values s zs)"
  by (auto simp: district_values_def)

lemma district_values_Nil: "district_values s [] = {}"
  by (simp add: district_values_def)

lemma districtmatch_loop_Cons:
  "districtmatch_loop s (e # zs) ds =
     (if has_code s e \<and> truthy (dict_get e (lit ''District'') PNone)
      then districtmatch_loop s zs (set_add ds (dict_get e (lit ''District'') PNone))
      else districtmatch_loop s zs ds)"
  by (simp add: has_code_def Let_def split: option.splits)

declare districtmatch_loop.simps(2) [simp del]

lemma districtmatch_step:
  "has_code s e \<and> truthy (dict_get e (lit ''District'') PNone) \<Longrightarrow>
   districtmatch_loop s (e # zs) ds =
     districtmatch_loop s zs (set_add ds (dict_get e (lit ''District'') PNone)) \<and>
   district_values s (e # zs) =
     insert (dict_get e (lit ''District'') PNone) (district_values s zs)"
  "\<not> (has_code s e \<and> truthy (dict_get e (lit ''District'') PNone)) \<Longrightarrow>
   districtmatch_loop s (e # zs) ds = districtmatch_loop s zs ds \<and>
   district_values s (e # zs) = district_values s zs"
  by (auto simp: districtmatch_loop_Cons district_values_Cons)

lemma districtmatch_loop_empty_iff:
  "districtmatch_loop s zs ds = [] \<longleftrightarrow> ds = [] \<and> district_values s zs = {}"
proof (induction zs arbitrary: ds)
  case Nil
  then show ?case by (simp add: district_values_Nil)
next
  case (Cons e zs)
  show ?case
  proof (cases "has_code s e \<and> truthy (dict_get e (lit ''District'') PNone)")
    case True
    from districtmatch_step(1) [OF True] show ?thesis
      by (simp add: Cons.IH set_add_nonempty)
  next
    case False
    from districtmatch_step(2) [OF False] show ?thesis
      by (simp add: Cons.IH)
  qed
qed

lemma set_add_strings:
  "list_all isinstance_str ds \<Longrightarrow> isinstance_str v \<Longrightarrow>
   set_add ds v = (if v \<in> set ds then ds else ds @ [v])"
proof -
  assume strs: "list_all isinstance_str ds" and v: "isinstance_str v"
  from v obtain t where t: "v = PStr t" by (cases v) simp_all
  have "list_ex (\<lambda>x. py_eq x v) ds \<longleftrightarrow> v \<in> set ds"
    using strs unfolding t
  proof (induction ds)
    case Nil
    then show ?case by simp
  next
    case (Cons d ds)
    from Cons.prems obtain u where "d = PStr u" by (cases d) simp_all
    with Cons show ?case by auto
  qed
  then show ?thesis by (simp add: set_add_def)
qed

lemma districtmatch_loop_strings:
  assumes "\<forall>d \<in> district_values s zs. isinstance_str d"
    and "list_all isinstance_str ds" and "distinct ds"
  shows "distinct (districtmatch_loop s zs ds) \<and>
     set (districtmatch_loop s zs ds) = set ds \<union> district_values s zs"
  using assms
proof (induction zs arbitrary: ds)
  case Nil
  then show ?case by (simp add: district_values_Nil)
next
  case (Cons e zs)
  show ?case
  proof (cases "has_code s e \<and> truthy (dict_get e (lit ''District'') PNone)")
    case False
    note step = districtmatch_step(2) [OF False, of zs]
    from Cons.prems(1) step have "\<forall>d \<in> district_values s zs. isinstance_str d"
      by simp
    from Cons.IH [OF this Cons.prems(2,3)] step show ?thesis
      by simp
  next
    case True
    let ?v = "dict_get e (lit ''District'') PNone"
    note step = districtmatch_step(1) [OF True, of zs]
    from Cons.prems(1) step have v: "isinstance_str ?v"
      and rest: "\<forall>d \<in> district_values s zs. isinstance_str d"
      by simp_all
    have add: "set_add ds ?v = (if ?v \<in> set ds then ds else ds @ [?v])"
      by (rule set_add_strings [OF Cons.prems(2) v])
    with Cons.prems(2,3) v have new: "list_all isinstance_str (set_add ds ?v)"
      "distinct (set_add ds ?v)" "set (set_add ds ?v) = insert ?v (set ds)"
      by auto
    from Cons.IH [OF rest new(1,2)] new(3) step show ?thesis
      by simp
  qed
qed

lemma py_join_strings:
  "list_all isinstance_str ds \<Longrightarrow> py_join sep ds = Inr (join_strs sep (map py_str ds))"
  by (simp add: py_join_def)

lemma py_join_not_ValueError: "py_join sep ds \<noteq> Inl (ValueError, m)"
  by (simp add: py_join_def)

text \<open>
  C5 (as the code has it). For a code that passes the gate, districtmatch raises the ValueError "not found"
  exactly when the code has no district value in the dataset: no record of the code, or none
  with a truthy \<open>District\<close>. Otherwise, the districts being strings, it returns them joined
  by a comma and a space: each once, in the order in which the set is iterated, which is
  some enumeration without repetition of the district values.
\<close>

theorem districtmatch_result:
  assumes "gate z = Inr s"
    and "\<forall>xs. distinct xs \<longrightarrow> distinct (iter xs) \<and> set (iter xs) = set xs"
  shows "(districtmatch iter gzips z zips =
            Inl (ValueError, ''Invalid Pincode, not found in database'') \<longleftrightarrow>
          district_values s (zips_or_default gzips zips) = {}) \<and>
         (district_values s (zips_or_default gzips zips) \<noteq> {} \<and>
          (\<forall>d \<in> district_values s (zips_or_default gzips zips). isinstance_str d) \<longrightarrow>
          (\<exists>ds. distinct ds \<and> set ds = district_values s (zips_or_default gzips zips) \<and>
             districtmatch iter gzips z zips = Inr (join_strs (lit '', '') (map py_str ds))))"
proof -
  let ?zs = "zips_or_default gzips zips"
  let ?ds = "districtmatch_loop s ?zs []"
  have call: "districtmatch iter gzips z zips =
      (if ?ds = [] then Inl (ValueError, ''Invalid Pincode, not found in database'')
       else py_join (lit '', '') (iter ?ds))"
    using assms(1) by (simp add: districtmatch_def clean_zipcode_gate districtmatch_body_def)
  have empty: "?ds = [] \<longleftrightarrow> district_values s ?zs = {}"
    by (simp add: districtmatch_loop_empty_iff)
  have not_found: "districtmatch iter gzips z zips =
      Inl (ValueError, ''Invalid Pincode, not found in database'') \<longleftrightarrow>
      district_values s ?zs = {}"
    using empty by (simp add: call py_join_not_ValueError)
  have joined: "\<exists>ds. distinct ds \<and> set ds = district_values s ?zs \<and>
      districtmatch iter gzips z zips = Inr (join_strs (lit '', '') (map py_str ds))"
    if some: "district_values s ?zs \<noteq> {}"
      and strs: "\<forall>d \<in> district_values s ?zs. isinstance_str d"
  proof -
    from districtmatch_loop_strings [OF strs, of "[]"]
    have loop: "distinct ?ds" "set ?ds = district_values s ?zs" by simp_all
    with assms(2) have it: "distinct (iter ?ds)" "set (iter ?ds) = district_values s ?zs"
      by simp_all
    with strs have "list_all isinstance_str (iter ?ds)"
      by (simp add: list_all_iff)
    from py_join_strings [OF this] some empty
    have "districtmatch iter gzips z zips = Inr (join_strs (lit '', '') (map py_str (iter ?ds)))"
      by (simp add: call)
    with it show ?thesis by blast
  qed
  from not_found joined show ?thesis by blast
qed

lemma fields_minto_road:
  "map_of minto_road (lit ''Pincode'') = Some (PInt 110001)"
  "map_of minto_road (lit ''Name'') = None"
  "map_of minto_road (lit ''District'') = Some (PStr (lit ''Central Delhi''))"
  "map_of minto_road (lit ''Latitude'') = Some PNone"
  "map_of minto_road (lit ''Longitude'') = None"
  by (simp_all add: minto_road_def)

lemma fields_connaught_place_2:
  "map_of connaught_place_2 (lit ''Pincode'') = Some (PInt 110001)"
  "map_of connaught_place_2 (lit ''Name'') = Some (PStr (lit ''Connaught Place''))"
  "map_of connaught_place_2 (lit ''District'') = Some (PStr (lit ''New Delhi''))"
  "map_of connaught_place_2 (lit ''Latitude'') = Some (PFloat (lit ''28.6315''))"
  "map_of connaught_place_2 (lit ''Longitude'') = None"
  by (simp_all add: connaught_place_2_def)

lemma str_nat_110001: "str_nat 110001 = lit ''110001''"
  by (simp add: str_nat.simps lit_def)

lemmas has_code_eval =
  has_code_def fields fields_minto_road fields_connaught_place_2 py_str_examples str_nat_110001

theorem districtmatch_result_witness:
  "(\<exists>ds. distinct ds \<and>
      set ds = {PStr (lit ''New Delhi''), PStr (lit ''Central Delhi'')} \<and>
      districtmatch rev [] (PStr (lit ''110001''))
        (Some [connaught_place, minto_road, karol_bagh, parliament_st]) =
        Inr (join_strs (lit '', '') (map py_str ds))) \<and>
   districtmatch rev [] (PStr (lit ''110001''))
     (Some [connaught_place, minto_road, karol_bagh, parliament_st]) =
     Inr (lit ''Central Delhi, New Delhi'') \<and>
   districtmatch rev [] (PStr (lit ''110001'')) (Some [karol_bagh]) =
     Inl (ValueError, ''Invalid Pincode, not found in database'')"
proof -
  let ?zips = "Some [connaught_place, minto_road, karol_bagh, parliament_st]"
  have order: "\<forall>xs :: pyval list. distinct xs \<longrightarrow> distinct (rev xs) \<and> set (rev xs) = set xs"
    by simp
  have dvals: "district_values (lit ''110001'') (zips_or_default [] ?zips) =
      {PStr (lit ''New Delhi''), PStr (lit ''Central Delhi'')}"
    by (auto simp: district_values_def zips_or_default_def has_code_eval dict_get_def)
  have none: "district_values (lit ''110001'') (zips_or_default [] (Some [karol_bagh])) = {}"
    by (simp add: district_values_def zips_or_default_def has_code_eval)
  from districtmatch_result [OF gate_110001 order, of "[]" ?zips] dvals
  have joined: "\<exists>ds. distinct ds \<and>
      set ds = {PStr (lit ''New Delhi''), PStr (lit ''Central Delhi'')} \<and>
      districtmatch rev [] (PStr (lit ''110001'')) ?zips =
        Inr (join_strs (lit '', '') (map py_str ds))"
    by simp
  from districtmatch_result [OF gate_110001 order, of "[]" "Some [karol_bagh]"] none
  have not_found: "districtmatch rev [] (PStr (lit ''110001'')) (Some [karol_bagh]) =
      Inl (ValueError, ''Invalid Pincode, not found in database'')"
    by simp
  have concat: "lit ''Central Delhi'' @ lit '', '' @ lit ''New Delhi'' =
      lit ''Central Delhi, New Delhi''"
    by (simp add: lit_def)
  have run: "districtmatch rev [] (PStr (lit ''110001'')) ?zips =
      Inr (lit ''Central Delhi, New Delhi'')"
    by (simp add: districtmatch_def clean_zipcode_gate gate_110001 districtmatch_body_def
        zips_or_default_def districtmatch_loop.simps(2) fields fields_minto_road
        py_str_examples str_nat_110001 dict_get_def set_add_def py_join_def concat)
  from joined run not_found show ?thesis by blast
qed

text \<open>
  C5 as it is written fails: a record of the code whose district is the number 5 gives a
  district set that is not empty, and the call neither raises "not found" nor returns a
  string: \<open>join\<close> raises TypeError.
\<close>

theorem districtmatch_non_string_counterexample:
  "district_values (lit ''110001'') [numeric_district] \<noteq> {} \<and>
   districtmatch id [] (PStr (lit ''110001'')) (Some [numeric_district]) = Inl (TypeError, [])"
proof -
  have fields_numeric: "map_of numeric_district (lit ''Pincode'') = Some (PStr (lit ''110001''))"
    "map_of numeric_district (lit ''District'') = Some (PInt 5)"
    by (simp_all add: numeric_district_def)
  have some: "district_values (lit ''110001'') [numeric_district] \<noteq> {}"
    by (simp add: district_values_def has_code_def dict_get_def fields_numeric)
  have raised:
    "districtmatch id [] (PStr (lit ''110001'')) (Some [numeric_district]) = Inl (TypeError, [])"
    by (simp add: districtmatch_def clean_zipcode_gate gate_110001 districtmatch_body_def
        zips_or_default_def districtmatch_loop.simps(2) fields_numeric dict_get_def set_add_def
        py_join_def)
  from some raised show ?thesis by blast
qed

section \<open>Coordinate lookup\<close>










declare coordinates_loop.simps(2) [simp del]





end
